theory Spec2Isabelle
  imports Main "HOL-Library.Sublist"
begin

section \<open>Python values, strings and exceptions\<close>

text \<open>
  The workflow is dynamically typed: a message or a response is a string, an opaque
  message object, a list of such values, or \<open>None\<close>. Strings are lists of characters.
\<close>

datatype 'a pyvalue = PyNone | PyStr string | PyObj 'a | PyList "'a pyvalue list"

text \<open>The exceptions the modelled code raises or lets through, each with its message.\<close>

datatype exn =
    ValueError string
  | AttributeError string
  | IndexError string
  | JSONDecodeError string
  | RecursionError string
  | CollaboratorError string

fun exn_str :: "exn \<Rightarrow> string" where
  "exn_str (ValueError m) = m"
| "exn_str (AttributeError m) = m"
| "exn_str (IndexError m) = m"
| "exn_str (JSONDecodeError m) = m"
| "exn_str (RecursionError m) = m"
| "exn_str (CollaboratorError m) = m"

text \<open>\<open>sep.join(xs)\<close>.\<close>

fun str_join :: "string \<Rightarrow> string list \<Rightarrow> string" where
  "str_join sep [] = []"
| "str_join sep [x] = x"
| "str_join sep (x # y # ys) = x @ sep @ str_join sep (y # ys)"

text \<open>\<open>str(n)\<close> for an integer: decimal digits, with a minus sign below zero.\<close>

definition digit_char :: "nat \<Rightarrow> char" where
  "digit_char d = char_of (48 + d)"

function str_nat :: "nat \<Rightarrow> string" where
  "str_nat n = (if n < 10 then [digit_char n] else str_nat (n div 10) @ [digit_char (n mod 10)])"
  by pat_completeness auto
termination
  by (relation "measure id") auto

declare str_nat.simps [simp del]

definition str_int :: "int \<Rightarrow> string" where
  "str_int i = (if i < 0 then ''-'' @ str_nat (nat (- i)) else str_nat (nat i))"

section \<open>evaluator\_optimizer.py: ratings and evaluation results\<close>

datatype QualityRating = POOR | FAIR | GOOD | EXCELLENT

text \<open>The \<open>.value\<close> of a rating, which the workflow compares.\<close>

fun rating_value :: "QualityRating \<Rightarrow> nat" where
  "rating_value POOR = 0"
| "rating_value FAIR = 1"
| "rating_value GOOD = 2"
| "rating_value EXCELLENT = 3"

record EvaluationResult =
  rating :: QualityRating
  feedback :: string
  needs_improvement :: bool
  focus_areas :: "string list"

text \<open>
  What the host language decides and the repository does not: how an object that is not a
  string prints (\<open>str(x)\<close>), and how a rating prints inside an f-string.
\<close>

record 'a host =
  str_object :: "'a pyvalue \<Rightarrow> string"
  format_rating :: "QualityRating \<Rightarrow> string"

text \<open>\<open>str(v)\<close>: a string is itself, \<open>None\<close> prints as \<open>None\<close>.\<close>

definition py_str :: "'a host \<Rightarrow> 'a pyvalue \<Rightarrow> string" where
  "py_str H v = (case v of PyStr s \<Rightarrow> s | PyNone \<Rightarrow> ''None'' | _ \<Rightarrow> str_object H v)"

text \<open>
  \<open>"\n".join(str(r) for r in response) if isinstance(response, list) else str(response)\<close>
\<close>

definition response_text :: "'a host \<Rightarrow> 'a pyvalue \<Rightarrow> string" where
  "response_text H v =
     (case v of PyList rs \<Rightarrow> str_join ''\<newline>'' (map (py_str H) rs) | _ \<Rightarrow> py_str H v)"

text \<open>
  The evaluator handed to the constructor is kept as it is in \<open>self.evaluator\<close>: either a
  plain string of criteria, or an agent or LLM, of which only the printed \<open>instruction\<close>
  attribute matters here.
\<close>

datatype evaluator = CriteriaText string | EvaluatorAgent string

text \<open>
  The attributes of the workflow object that \<open>generate\<close> reads. \<open>history\<close> is the truth value
  of \<open>self.history\<close>.
\<close>

record optimizer =
  evaluator :: evaluator
  min_rating :: QualityRating
  max_refinements :: int
  history :: bool

section \<open>Prompt templates\<close>

text \<open>The literal pieces of the two f-string templates, cut where a value is spliced in.\<close>

definition eval_intro :: string where
  "eval_intro = ''\<newline>You are an expert evaluator for content quality. Your task is to evaluate a response against the user'' @ [CHR 0x27] @ ''s original request.\<newline>\<newline>Evaluate the response for iteration ''"

definition eval_request_open :: string where
  "eval_request_open = '' and provide structured feedback on its quality and areas for improvement.\<newline>\<newline><fastagent:data>\<newline><fastagent:request>\<newline>''"

definition eval_response_open :: string where
  "eval_response_open = ''\<newline></fastagent:request>\<newline>\<newline><fastagent:response>\<newline>''"

definition eval_criteria_open :: string where
  "eval_criteria_open = ''\<newline></fastagent:response>\<newline>\<newline><fastagent:evaluation-criteria>\<newline>''"

definition eval_instruction :: string where
  "eval_instruction = ''\<newline></fastagent:evaluation-criteria>\<newline></fastagent:data>\<newline>\<newline><fastagent:instruction>\<newline>Provide a structured evaluation with the following components:\<newline>\<newline><rating>\<newline>Choose one: EXCELLENT, GOOD, FAIR, or POOR\<newline>- EXCELLENT: No improvements needed\<newline>- GOOD: Only minor improvements possible\<newline>- FAIR: Several improvements needed\<newline>- POOR: Major improvements needed\<newline></rating>\<newline>\<newline><details>\<newline>Provide specific, actionable feedback and suggestions for improvement.\<newline>Be precise about what works well and what could be improved.\<newline></details>\<newline>\<newline><needs_improvement>\<newline>Indicate true/false whether further improvement is needed.\<newline></needs_improvement>\<newline>\<newline><focus-areas>\<newline>List 1-3 specific areas to focus on in the next iteration.\<newline>Be concrete and actionable in your recommendations.\<newline></focus-areas>\<newline></fastagent:instruction>\<newline>''"

definition refine_intro :: string where
  "refine_intro = ''\<newline>You are tasked with improving a response based on expert feedback. This is iteration ''"

definition refine_goal :: string where
  "refine_goal = '' of the refinement process.\<newline>\<newline>Your goal is to address all feedback points while maintaining accuracy and relevance to the original request.\<newline>''"

definition data_open :: string where
  "data_open = ''\<newline><fastagent:data>\<newline>''"

definition request_open :: string where
  "request_open = ''\<newline><fastagent:request>\<newline>''"

definition request_close :: string where
  "request_close = ''\<newline></fastagent:request>\<newline>''"

definition previous_open :: string where
  "previous_open = ''\<newline><fastagent:previous-response>\<newline>''"

definition previous_close :: string where
  "previous_close = ''\<newline></fastagent:previous-response>\<newline>''"

definition feedback_open :: string where
  "feedback_open = ''\<newline><fastagent:feedback>\<newline><rating>''"

definition details_open :: string where
  "details_open = ''</rating>\<newline><details>''"

definition details_close :: string where
  "details_close = ''</details>\<newline>''"

definition feedback_close :: string where
  "feedback_close = ''\<newline></fastagent:feedback>\<newline></fastagent:data>\<newline>''"

definition instruction_open :: string where
  "instruction_open = ''\<newline><fastagent:instruction>\<newline>''"

definition instruction_fresh :: string where
  "instruction_fresh = ''Create an improved version of the response that:\<newline>1. Directly addresses each point in the feedback\<newline>2. Focuses on the specific areas mentioned for improvement\<newline>3. Maintains all the strengths of the original response\<newline>4. Remains accurate and relevant to the original request\<newline>\<newline>Provide your complete improved response without explanations or commentary.\<newline></fastagent:instruction>\<newline>''"

definition history_notice :: string where
  "history_notice = ''Your previous response is available in your conversation history.''"

definition instruction_retained :: string where
  "instruction_retained = ''\<newline>\<newline>Create an improved version that:\<newline>1. Directly addresses each point in the feedback\<newline>2. Focuses on the specific areas mentioned for improvement\<newline>3. Maintains all the strengths of your original response\<newline>4. Remains accurate and relevant to the original request\<newline>\<newline>Provide your complete improved response without explanations or commentary.\<newline></fastagent:instruction>\<newline>''"

section \<open>Prompt builders\<close>

text \<open>
  \<open>_build_eval_prompt\<close>. The template reads \<open>self.evaluator.instruction\<close>; a plain string
  has no such attribute, and the attribute access raises.
\<close>

definition evaluator_instruction :: "evaluator \<Rightarrow> exn + string" where
  "evaluator_instruction e =
     (case e of
        CriteriaText c \<Rightarrow> Inl (AttributeError (
          [CHR 0x27] @ ''str'' @ [CHR 0x27] @ '' object has no attribute ''
            @ [CHR 0x27] @ ''instruction'' @ [CHR 0x27]))
      | EvaluatorAgent i \<Rightarrow> Inr i)"

definition build_eval_prompt :: "optimizer \<Rightarrow> string \<Rightarrow> string \<Rightarrow> int \<Rightarrow> exn + string" where
  "build_eval_prompt self original_request current_response iteration =
     (case evaluator_instruction (evaluator self) of
        Inl e \<Rightarrow> Inl e
      | Inr criteria \<Rightarrow> Inr (
          eval_intro @ str_int (iteration + 1) @ eval_request_open @ original_request
            @ eval_response_open @ current_response @ eval_criteria_open @ criteria
            @ eval_instruction))"

text \<open>
  The focus-areas field:
  \<open>", ".join(feedback.focus_areas) if feedback.focus_areas else "None specified"\<close>
\<close>

definition focus_field :: "EvaluationResult \<Rightarrow> string" where
  "focus_field fb =
     (if focus_areas fb \<noteq> [] then str_join '', '' (focus_areas fb) else ''None specified'')"

text \<open>\<open>_build_refinement_prompt\<close>: the prompt grows by one \<open>+=\<close> after the other.\<close>

definition build_refinement_prompt ::
  "'a host \<Rightarrow> optimizer \<Rightarrow> string \<Rightarrow> string \<Rightarrow> EvaluationResult \<Rightarrow> int \<Rightarrow> string" where
  "build_refinement_prompt H self original_request current_response fb iteration =
     (let history_enabled = history self;
          prompt = refine_intro @ str_int (iteration + 1) @ refine_goal;
          prompt = prompt @ data_open;
          prompt = prompt @ request_open @ original_request @ request_close;
          prompt = (if \<not> history_enabled
                    then prompt @ previous_open @ current_response @ previous_close
                    else prompt);
          prompt = prompt @ feedback_open @ format_rating H (rating fb) @ details_open
                     @ feedback fb @ details_close
                     @ ''<focus-areas>'' @ focus_field fb @ ''</focus-areas>'' @ feedback_close;
          prompt = (if \<not> history_enabled
                    then prompt @ instruction_open @ instruction_fresh
                    else prompt @ instruction_open @ history_notice @ instruction_retained)
      in prompt)"

section \<open>The refinement loop\<close>

text \<open>One entry of \<open>self.refinement_history\<close>.\<close>

record 'a refinement =
  attempt :: int
  recorded_response :: "'a pyvalue"
  evaluation_result :: EvaluationResult

text \<open>
  The variables of \<open>generate\<close>, the history it keeps on the object, the state of the outside
  world that the two collaborators read and change, and two counters of the calls made to
  them (kept for the proofs only).
\<close>

record ('a, 'w) state =
  refinement_count :: int
  response :: "'a pyvalue"
  best_response :: "'a pyvalue"
  best_rating :: QualityRating
  refinement_history :: "'a refinement list"
  generator_calls :: nat
  evaluator_calls :: nat
  world :: 'w

text \<open>
  \<open>generator_llm.generate\<close> and \<open>evaluator_llm.generate_structured\<close>: anything that takes a
  message, may change the world, and returns a value or raises.
\<close>

type_synonym ('a, 'w) generator = "'a pyvalue \<Rightarrow> 'w \<Rightarrow> (exn + 'a pyvalue) \<times> 'w"

type_synonym 'w evaluator_llm = "string \<Rightarrow> 'w \<Rightarrow> (exn + EvaluationResult) \<times> 'w"

text \<open>
  The test that ends the loop, lines 230 to 233:
  \<open>rating.value >= self.min_rating.value or not needs_improvement\<close>
\<close>

definition acceptable :: "optimizer \<Rightarrow> EvaluationResult \<Rightarrow> bool" where
  "acceptable self evaluation =
     (rating_value (rating evaluation) \<ge> rating_value (min_rating self)
      \<or> \<not> needs_improvement evaluation)"

text \<open>How one pass through the loop body ends.\<close>

datatype 's flow = Break 's | Continue 's | Raise exn 's

text \<open>The body of the \<open>while\<close> loop, lines 191 to 260.\<close>

definition iteration ::
  "'a host \<Rightarrow> optimizer \<Rightarrow> ('a, 'w) generator \<Rightarrow> 'w evaluator_llm \<Rightarrow> 'a pyvalue
     \<Rightarrow> ('a, 'w) state \<Rightarrow> ('a, 'w) state flow" where
  "iteration H self gen ev message s =
     (case build_eval_prompt self (py_str H message) (response_text H (response s))
             (refinement_count s) of
        Inl e \<Rightarrow> Raise e s
      | Inr eval_prompt \<Rightarrow>
          (case ev eval_prompt (world s) of
             (Inl e, w1) \<Rightarrow> Raise e (s\<lparr>evaluator_calls := evaluator_calls s + 1, world := w1\<rparr>)
           | (Inr evaluation, w1) \<Rightarrow>
               (let s1 = s\<lparr>evaluator_calls := evaluator_calls s + 1, world := w1,
                            refinement_history := refinement_history s @
                              [\<lparr>attempt = refinement_count s + 1,
                                recorded_response = response s,
                                evaluation_result = evaluation\<rparr>]\<rparr>;
                    s2 = (if rating_value (rating evaluation) > rating_value (best_rating s1)
                          then s1\<lparr>best_rating := rating evaluation,
                                  best_response := response s1\<rparr>
                          else s1)
                in if acceptable self evaluation
                   then Break s2
                   else
                     (case gen (PyStr (build_refinement_prompt H self (py_str H message)
                                  (response_text H (response s2)) evaluation
                                  (refinement_count s2))) (world s2) of
                        (Inl e, w2) \<Rightarrow>
                          Raise e (s2\<lparr>generator_calls := generator_calls s2 + 1, world := w2\<rparr>)
                      | (Inr r, w2) \<Rightarrow>
                          Continue (s2\<lparr>generator_calls := generator_calls s2 + 1, world := w2,
                                       response := r,
                                       refinement_count := refinement_count s2 + 1\<rparr>)))))"

text \<open>\<open>while refinement_count < self.max_refinements\<close>: the exception raised, if any, and the
  state the loop is left in.\<close>

function refine ::
  "'a host \<Rightarrow> optimizer \<Rightarrow> ('a, 'w) generator \<Rightarrow> 'w evaluator_llm \<Rightarrow> 'a pyvalue
     \<Rightarrow> ('a, 'w) state \<Rightarrow> exn option \<times> ('a, 'w) state" where
  "refine H self gen ev message s =
     (if refinement_count s < max_refinements self
      then (case iteration H self gen ev message s of
              Break s' \<Rightarrow> (None, s')
            | Raise e s' \<Rightarrow> (Some e, s')
            | Continue s' \<Rightarrow> refine H self gen ev message s')
      else (None, s))"
  by pat_completeness auto
termination
  by (relation "measure (\<lambda>(H, self, gen, ev, message, s).
        nat (max_refinements self - refinement_count s))")
     (auto simp: iteration_def Let_def split: sum.splits prod.splits if_splits)

declare refine.simps [simp del]

text \<open>\<open>generate\<close>: the value returned or the exception raised, with the final state.\<close>

definition initial_state :: "'w \<Rightarrow> ('a, 'w) state" where
  "initial_state w =
     \<lparr>refinement_count = 0, response = PyNone, best_response = PyNone, best_rating = POOR,
      refinement_history = [], generator_calls = 0, evaluator_calls = 0, world = w\<rparr>"

definition generate ::
  "'a host \<Rightarrow> optimizer \<Rightarrow> ('a, 'w) generator \<Rightarrow> 'w evaluator_llm \<Rightarrow> 'a pyvalue \<Rightarrow> 'w
     \<Rightarrow> (exn + 'a pyvalue) \<times> ('a, 'w) state" where
  "generate H self gen ev message w =
     (let s = initial_state w in
      case gen message (world s) of
        (Inl e, w1) \<Rightarrow> (Inl e, s\<lparr>generator_calls := generator_calls s + 1, world := w1\<rparr>)
      | (Inr r, w1) \<Rightarrow>
          (let s = s\<lparr>generator_calls := generator_calls s + 1, world := w1, response := r\<rparr>;
               s = s\<lparr>best_response := response s\<rparr>
           in case refine H self gen ev message s of
                (Some e, s') \<Rightarrow> (Inl e, s')
              | (None, s') \<Rightarrow> (Inr (best_response s'), s')))"

section \<open>augmented\_llm\_passthrough.py: string operations\<close>

text \<open>
  \<open>s.split(sep, 1)\<close> cuts \<open>s\<close> at the first place where \<open>sep\<close> starts: the text before it
  and the text after it, if there is such a place. The separators used here are not empty.
\<close>

fun split_first :: "string \<Rightarrow> string \<Rightarrow> (string \<times> string) option" where
  "split_first sep [] = (if sep = [] then Some ([], []) else None)"
| "split_first sep (c # cs) =
     (if prefix sep (c # cs) then Some ([], drop (length sep) (c # cs))
      else map_option (\<lambda>(a, b). (c # a, b)) (split_first sep cs))"

text \<open>\<open>s.split(sep, maxsplit)\<close>\<close>

fun split_max :: "string \<Rightarrow> nat \<Rightarrow> string \<Rightarrow> string list" where
  "split_max sep 0 s = [s]"
| "split_max sep (Suc n) s =
     (case split_first sep s of
        None \<Rightarrow> [s]
      | Some (a, b) \<Rightarrow> a # split_max sep n b)"

text \<open>
  \<open>s.strip()\<close> removes white space at both ends. Among the characters of one byte the white
  space is: tab to carriage return, the four separators 28 to 31, the space, 133 and 160.
\<close>

definition is_space :: "char \<Rightarrow> bool" where
  "is_space c =
     (let n = (of_char c :: nat)
      in (9 \<le> n \<and> n \<le> 13) \<or> (28 \<le> n \<and> n \<le> 32) \<or> n = 133 \<or> n = 160)"

definition strip :: "string \<Rightarrow> string" where
  "strip s = rev (dropWhile is_space (rev (dropWhile is_space s)))"

text \<open>\<open>xs[i]\<close> for \<open>i\<close> from zero up: past the end it raises.\<close>

definition item :: "'a list \<Rightarrow> nat \<Rightarrow> exn + 'a" where
  "item xs i = (if i < length xs then Inr (xs ! i)
                else Inl (IndexError ''list index out of range''))"

section \<open>augmented\_llm\_passthrough.py: the passthrough LLM\<close>



text \<open>\<open>generate\<close>: \<open>[message] if isinstance(message, list) else message\<close>\<close>

definition passthrough_generate :: "'a pyvalue \<Rightarrow> 'a pyvalue" where
  "passthrough_generate message =
     (case message of PyList parts \<Rightarrow> PyList [message] | _ \<Rightarrow> message)"

text \<open>
  The result of a tool call: a content item either has a \<open>text\<close> attribute or is printed
  with \<open>str\<close>.
\<close>

datatype 'c content_item = TextContent string | OtherContent 'c

record 'c tool_result =
  isError :: bool
  content :: "'c content_item list"

definition item_text :: "('c \<Rightarrow> string) \<Rightarrow> 'c content_item \<Rightarrow> string" where
  "item_text str_item c = (case c of TextContent t \<Rightarrow> t | OtherContent x \<Rightarrow> str_item x)"

text \<open>\<open>_format_tool_result\<close>\<close>

definition format_tool_result :: "('c \<Rightarrow> string) \<Rightarrow> string \<Rightarrow> 'c tool_result \<Rightarrow> string" where
  "format_tool_result str_item tool_name result =
     (if isError result
      then (let error_text = map (item_text str_item) (content result);
                error_message = (if error_text \<noteq> [] then str_join ''\<newline>'' error_text
                                 else ''Unknown error'')
            in ''Error calling tool '' @ [CHR 0x27] @ tool_name @ [CHR 0x27] @ '': ''
                 @ error_message)
      else str_join ''\<newline>'' (map (item_text str_item) (content result)))"

text \<open>
  The object itself: the stored response, the world its tools act on, and a counter of the
  calls made to the tool aggregator (kept for the proofs only).
\<close>

record 'w passthrough =
  fixed_response :: "string option"
  tool_calls :: nat
  tool_world :: 'w

text \<open>
  What the passthrough LLM is given from outside: \<open>json.loads\<close>, which returns the value
  read or raises (a \<open>JSONDecodeError\<close>, or something else, such as the \<open>RecursionError\<close> of a
  text nested too deep), \<open>str\<close> of a content item, \<open>aggregator.call_tool\<close>, and the two
  readers of a multipart message.
\<close>

record ('j, 'c, 'w, 'm) services =
  json_loads :: "string \<Rightarrow> exn + 'j"
  str_item :: "'c \<Rightarrow> string"
  call_tool :: "string \<Rightarrow> 'j option \<Rightarrow> 'w \<Rightarrow> (exn + 'c tool_result) \<times> 'w"
  first_text :: "'m \<Rightarrow> string"
  all_text :: "'m \<Rightarrow> string"

text \<open>
  \<open>_parse_tool_command\<close>. Only a \<open>JSONDecodeError\<close> of \<open>json.loads\<close> is caught and raised
  again as the \<open>ValueError\<close> that quotes the arguments; any other exception goes on as it is.
\<close>

definition parse_tool_command ::
  "('j, 'c, 'w, 'm) services \<Rightarrow> string \<Rightarrow> exn + (string \<times> 'j option)" where
  "parse_tool_command S command =
     (let parts = split_max '' '' 2 command in
      if length parts < 2
      then Inl (ValueError (''Invalid format. Expected '' @ [CHR 0x27]
                  @ ''***CALL_TOOL <tool_name> [arguments_json]'' @ [CHR 0x27]))
      else (let tool_name = strip (parts ! 1) in
            if length parts > 2
            then (case json_loads S (parts ! 2) of
                    Inl (JSONDecodeError m) \<Rightarrow>
                      Inl (ValueError (''Invalid JSON arguments: '' @ parts ! 2))
                  | Inl e \<Rightarrow> Inl e
                  | Inr arguments \<Rightarrow> Inr (tool_name, Some arguments))
            else Inr (tool_name, None)))"

text \<open>\<open>_call_tool_and_return_result\<close>: every exception becomes the text returned.\<close>

definition call_tool_and_return_result ::
  "('j, 'c, 'w, 'm) services \<Rightarrow> string \<Rightarrow> 'w passthrough \<Rightarrow> string \<times> 'w passthrough" where
  "call_tool_and_return_result S command self =
     (case parse_tool_command S command of
        Inl e \<Rightarrow> (''Error calling tool: '' @ exn_str e, self)
      | Inr (tool_name, arguments) \<Rightarrow>
          (case call_tool S tool_name arguments (tool_world self) of
             (Inl e, w) \<Rightarrow>
               (''Error calling tool: '' @ exn_str e,
                self\<lparr>tool_calls := tool_calls self + 1, tool_world := w\<rparr>)
           | (Inr result, w) \<Rightarrow>
               (format_tool_result (str_item S) tool_name result,
                self\<lparr>tool_calls := tool_calls self + 1, tool_world := w\<rparr>)))"

text \<open>\<open>generate_str\<close> for a message that is a string; what it shows on the console is left
  out.\<close>

definition generate_str ::
  "('j, 'c, 'w, 'm) services \<Rightarrow> string \<Rightarrow> 'w passthrough \<Rightarrow> string \<times> 'w passthrough" where
  "generate_str S message self =
     (if prefix ''***CALL_TOOL '' message
      then call_tool_and_return_result S message self
      else (message, self))"








section \<open>Stand-ins for the collaborators\<close>

text \<open>
  A generator and an evaluator to run the loop on: the generator numbers its drafts, the
  evaluator reads its verdicts from a script and fails when the script is used up.
\<close>

record stand_in_world =
  verdicts :: "EvaluationResult list"
  drafts :: nat

definition numbering_generator :: "(nat, stand_in_world) generator" where
  "numbering_generator m w = (Inr (PyObj (drafts w)), w\<lparr>drafts := drafts w + 1\<rparr>)"

definition scripted_evaluator :: "stand_in_world evaluator_llm" where
  "scripted_evaluator p w =
     (case verdicts w of
        [] \<Rightarrow> (Inl (CollaboratorError ''no verdict left''), w)
      | v # vs \<Rightarrow> (Inr v, w\<lparr>verdicts := vs\<rparr>))"

definition verdict :: "QualityRating \<Rightarrow> EvaluationResult" where
  "verdict q = \<lparr>rating = q, feedback = ''Tighten it.'', needs_improvement = True,
                focus_areas = []\<rparr>"

definition script :: "QualityRating list \<Rightarrow> stand_in_world" where
  "script qs = \<lparr>verdicts = map verdict qs, drafts = 1\<rparr>"

definition stand_in_host :: "nat host" where
  "stand_in_host = \<lparr>str_object = (\<lambda>v. ''<draft>''),
                     format_rating = (\<lambda>q. str_nat (rating_value q))\<rparr>"

definition workflow :: "QualityRating \<Rightarrow> int \<Rightarrow> optimizer" where
  "workflow q n = \<lparr>evaluator = EvaluatorAgent ''Be strict.'', min_rating = q,
                    max_refinements = n, history = False\<rparr>"

text \<open>
  Services for a passthrough LLM whose messages are plain strings and whose tools always
  answer with their own name. The JSON reader accepts only the empty object; on a text
  that opens a thousand arrays or more it gives up with a \<open>RecursionError\<close>, as \<open>json.loads\<close>
  does at the default recursion limit, and it rejects any other text with a
  \<open>JSONDecodeError\<close>.
\<close>

definition plain_services :: "(unit, unit, nat, string) services" where
  "plain_services =
     \<lparr>json_loads = (\<lambda>t.
         if t = ''{}'' then Inr ()
         else if 1000 \<le> length (takeWhile (\<lambda>c. c = CHR ''['') t)
         then Inl (RecursionError (''maximum recursion depth exceeded while decoding ''
                @ ''a JSON array from a unicode string''))
         else Inl (JSONDecodeError ''Expecting value'')),
      str_item = (\<lambda>x. ''<item>''),
      call_tool = (\<lambda>name arguments w.
         (Inr \<lparr>isError = False, content = [TextContent name]\<rparr>, w + 1)),
      first_text = (\<lambda>m. m),
      all_text = (\<lambda>m. m)\<rparr>"

definition fresh_passthrough :: "nat passthrough" where
  "fresh_passthrough = \<lparr>fixed_response = None, tool_calls = 0, tool_world = 0\<rparr>"

section \<open>Invariants of the refinement loop\<close>

fun flow_state :: "'s flow \<Rightarrow> 's" where
  "flow_state (Break s) = s"
| "flow_state (Continue s) = s"
| "flow_state (Raise e s) = s"

text \<open>
  The best response is tracked: before any evaluation is recorded the best rating is the
  floor \<open>POOR\<close> and the best response is the current one; afterwards the best rating is the
  highest rating recorded, and the best response is the response of the first record that
  has this rating.
\<close>

definition best_tracked :: "('a, 'w) state \<Rightarrow> bool" where
  "best_tracked s =
     (if refinement_history s = []
      then best_rating s = POOR \<and> best_response s = response s
      else rating_value (best_rating s)
             = Max (set (map (rating_value \<circ> rating \<circ> evaluation_result) (refinement_history s)))
           \<and> map_option recorded_response
               (find (\<lambda>r. rating (evaluation_result r) = best_rating s) (refinement_history s))
             = Some (best_response s))"

text \<open>
  What holds whenever the loop test is reached: one generator call more than evaluations
  recorded, one evaluator call and one refinement for each record, the records numbered
  from one, and none of them acceptable.
\<close>

definition at_head :: "optimizer \<Rightarrow> ('a, 'w) state \<Rightarrow> bool" where
  "at_head self s =
     (generator_calls s = length (refinement_history s) + 1
      \<and> evaluator_calls s = length (refinement_history s)
      \<and> refinement_count s = int (length (refinement_history s))
      \<and> map attempt (refinement_history s) = map int [1..<Suc (length (refinement_history s))]
      \<and> list_all (\<lambda>r. \<not> acceptable self (evaluation_result r)) (refinement_history s))"

section \<open>The loop: helper lemmas\<close>

lemma iteration_Continue_count:
  "iteration H self gen ev message s = Continue s' \<Longrightarrow>
     refinement_count s' = refinement_count s + 1"
  by (auto simp: iteration_def Let_def split: sum.splits prod.splits if_splits)

lemma iteration_Continue_head:
  "iteration H self gen ev message s = Continue s' \<Longrightarrow> at_head self s \<Longrightarrow> at_head self s'"
  by (auto simp: iteration_def at_head_def Let_def split: sum.splits prod.splits if_splits)

lemma iteration_Break_exit:
  "iteration H self gen ev message s = Break s' \<Longrightarrow> at_head self s \<Longrightarrow>
     refinement_history s' \<noteq> []
     \<and> acceptable self (evaluation_result (last (refinement_history s')))
     \<and> list_all (\<lambda>r. \<not> acceptable self (evaluation_result r)) (butlast (refinement_history s'))
     \<and> map attempt (refinement_history s') = map int [1..<Suc (length (refinement_history s'))]
     \<and> generator_calls s' = length (refinement_history s')
     \<and> evaluator_calls s' = length (refinement_history s')"
  by (auto simp: iteration_def at_head_def Let_def split: sum.splits prod.splits if_splits)

lemma iteration_Raise_exit:
  "iteration H self gen ev message s = Raise e s' \<Longrightarrow> at_head self s \<Longrightarrow>
     list_all (\<lambda>r. \<not> acceptable self (evaluation_result r)) (refinement_history s')"
  by (auto simp: iteration_def at_head_def Let_def split: sum.splits prod.splits if_splits)

lemma refine_exit:
  "at_head self s \<Longrightarrow> refine H self gen ev message s = (out, s') \<Longrightarrow>
     (case out of
        Some e \<Rightarrow> list_all (\<lambda>r. \<not> acceptable self (evaluation_result r)) (refinement_history s')
      | None \<Rightarrow>
          evaluator_calls s' = length (refinement_history s')
          \<and> list_all (\<lambda>r. \<not> acceptable self (evaluation_result r)) (butlast (refinement_history s'))
          \<and> map attempt (refinement_history s') = map int [1..<Suc (length (refinement_history s'))]
          \<and> (if refinement_history s' \<noteq> []
                 \<and> acceptable self (evaluation_result (last (refinement_history s')))
              then generator_calls s' = length (refinement_history s')
              else generator_calls s' = length (refinement_history s') + 1
                   \<and> max_refinements self \<le> refinement_count s'))"
proof (induction H self gen ev message s rule: refine.induct)
  case (1 H self gen ev message s)
  show ?case
  proof (cases "refinement_count s < max_refinements self")
    case False
    with "1.prems" have "out = None" "s' = s" by (simp_all add: refine.simps)
    with "1.prems"(1) False show ?thesis
      by (cases "refinement_history s = []")
         (auto simp: at_head_def list_all_iff dest: in_set_butlastD)
  next
    case True
    show ?thesis
    proof (cases "iteration H self gen ev message s")
      case (Break t)
      with True "1.prems" have "out = None" "s' = t" by (simp_all add: refine.simps)
      with iteration_Break_exit [OF Break "1.prems"(1)] show ?thesis by simp
    next
      case (Continue t)
      with True "1.prems" have "refine H self gen ev message t = (out, s')"
        by (simp add: refine.simps)
      with "1.IH" [OF True Continue iteration_Continue_head [OF Continue "1.prems"(1)]]
      show ?thesis by simp
    next
      case (Raise e t)
      with True "1.prems" have "out = Some e" "s' = t" by (simp_all add: refine.simps)
      with iteration_Raise_exit [OF Raise "1.prems"(1)] show ?thesis by simp
    qed
  qed
qed

lemma rating_value_inj: "rating_value a = rating_value b \<Longrightarrow> a = b"
  by (cases a; cases b) simp_all

lemma find_snoc:
  "find P (xs @ [x]) = (case find P xs of Some y \<Rightarrow> Some y | None \<Rightarrow> if P x then Some x else None)"
  by (induction xs) simp_all

lemma find_none_below:
  assumes "\<forall>r\<in>set h. rating_value (rating (evaluation_result r)) < rating_value q"
  shows "find (\<lambda>r. rating (evaluation_result r) = q) h = None"
  using assms by (auto simp: find_None_iff)

lemma record_tracks:
  assumes "best_tracked s"
  shows "best_tracked (s\<lparr>refinement_history := refinement_history s @
            [\<lparr>attempt = n, recorded_response = response s, evaluation_result = e\<rparr>],
          best_rating := (if rating_value (best_rating s) < rating_value (rating e)
                          then rating e else best_rating s),
          best_response := (if rating_value (best_rating s) < rating_value (rating e)
                            then response s else best_response s)\<rparr>)"
proof (cases "refinement_history s = []")
  case True
  with assms show ?thesis
    by (cases "rating e") (auto simp: best_tracked_def)
next
  case False
  let ?h = "refinement_history s"
  let ?vals = "set (map (rating_value \<circ> rating \<circ> evaluation_result) ?h)"
  from False have ne: "?vals \<noteq> {}" by simp
  from assms False have mx: "rating_value (best_rating s) = Max ?vals"
    and fd: "map_option recorded_response
               (find (\<lambda>r. rating (evaluation_result r) = best_rating s) ?h) = Some (best_response s)"
    by (simp_all add: best_tracked_def)
  have below: "\<forall>r\<in>set ?h. rating_value (rating (evaluation_result r)) \<le> rating_value (best_rating s)"
    using mx by (auto intro: Max_ge)
  have Mx: "Max (insert (rating_value (rating e)) ?vals) = max (rating_value (rating e)) (Max ?vals)"
    using ne by (simp add: Max_insert)
  show ?thesis
  proof (cases "rating_value (best_rating s) < rating_value (rating e)")
    case True
    with below have "\<forall>r\<in>set ?h. rating_value (rating (evaluation_result r)) < rating_value (rating e)"
      by fastforce
    then have "find (\<lambda>r. rating (evaluation_result r) = rating e) ?h = None"
      by (rule find_none_below)
    with True mx Mx show ?thesis
      by (simp add: best_tracked_def find_snoc max_def)
  next
    case False
    from fd obtain r where "find (\<lambda>r. rating (evaluation_result r) = best_rating s) ?h = Some r"
      by (auto simp: map_option_case split: option.splits)
    with False mx Mx fd show ?thesis
      by (simp add: best_tracked_def find_snoc max_def)
  qed
qed


lemma best_tracked_cong:
  assumes "refinement_history t = refinement_history u"
    and "best_rating t = best_rating u"
    and "best_response t = best_response u"
    and "refinement_history u = [] \<Longrightarrow> response t = response u"
  shows "best_tracked t = best_tracked u"
  using assms by (auto simp: best_tracked_def)

lemma iteration_fields:
  "(refinement_history (flow_state (iteration H self gen ev message s)) = refinement_history s
      \<and> best_rating (flow_state (iteration H self gen ev message s)) = best_rating s
      \<and> best_response (flow_state (iteration H self gen ev message s)) = best_response s
      \<and> response (flow_state (iteration H self gen ev message s)) = response s)
   \<or> (\<exists>n e. refinement_history (flow_state (iteration H self gen ev message s))
                 = refinement_history s @
                     [\<lparr>attempt = n, recorded_response = response s, evaluation_result = e\<rparr>]
              \<and> best_rating (flow_state (iteration H self gen ev message s))
                  = (if rating_value (best_rating s) < rating_value (rating e)
                     then rating e else best_rating s)
              \<and> best_response (flow_state (iteration H self gen ev message s))
                  = (if rating_value (best_rating s) < rating_value (rating e)
                     then response s else best_response s))"
  by (auto simp: iteration_def Let_def split: sum.splits prod.splits)

lemma iteration_tracks:
  assumes "best_tracked s"
  shows "best_tracked (flow_state (iteration H self gen ev message s))"
proof -
  let ?t = "flow_state (iteration H self gen ev message s)"
  from iteration_fields [of H self gen ev message s]
  consider
    (same) "refinement_history ?t = refinement_history s" "best_rating ?t = best_rating s"
      "best_response ?t = best_response s" "response ?t = response s"
  | (more) n e where "refinement_history ?t = refinement_history s @
                 [\<lparr>attempt = n, recorded_response = response s, evaluation_result = e\<rparr>]"
      "best_rating ?t = (if rating_value (best_rating s) < rating_value (rating e)
                                 then rating e else best_rating s)"
      "best_response ?t = (if rating_value (best_rating s) < rating_value (rating e)
                                   then response s else best_response s)"
    by blast
  then show ?thesis
  proof cases
    case same
    then have "best_tracked ?t = best_tracked s" by (intro best_tracked_cong) simp_all
    with assms show ?thesis by simp
  next
    case more
    then have "best_tracked ?t = best_tracked (s\<lparr>refinement_history := refinement_history s @
            [\<lparr>attempt = n, recorded_response = response s, evaluation_result = e\<rparr>],
          best_rating := (if rating_value (best_rating s) < rating_value (rating e)
                          then rating e else best_rating s),
          best_response := (if rating_value (best_rating s) < rating_value (rating e)
                            then response s else best_response s)\<rparr>)"
      by (intro best_tracked_cong) simp_all
    with record_tracks [OF assms] show ?thesis by simp
  qed
qed

lemma refine_tracks:
  "best_tracked s \<Longrightarrow> best_tracked (snd (refine H self gen ev message s))"
proof (induction H self gen ev message s rule: refine.induct)
  case (1 H self gen ev message s)
  from iteration_tracks [OF "1.prems", of H self gen ev message]
  show ?case
    using 1
    by (subst refine.simps) (auto split: flow.splits)
qed

lemma iteration_calls:
  "generator_calls (flow_state (iteration H self gen ev message s)) \<le> generator_calls s + 1
   \<and> evaluator_calls (flow_state (iteration H self gen ev message s)) \<le> evaluator_calls s + 1"
  by (auto simp: iteration_def Let_def split: sum.splits prod.splits)

lemma refine_calls:
  "generator_calls (snd (refine H self gen ev message s))
     \<le> generator_calls s + nat (max_refinements self - refinement_count s)
   \<and> evaluator_calls (snd (refine H self gen ev message s))
     \<le> evaluator_calls s + nat (max_refinements self - refinement_count s)"
proof (induction H self gen ev message s rule: refine.induct)
  case (1 H self gen ev message s)
  show ?case
  proof (cases "refinement_count s < max_refinements self")
    case False
    then show ?thesis by (simp add: refine.simps)
  next
    case True
    note step = iteration_calls [of H self gen ev message s]
    show ?thesis
    proof (cases "iteration H self gen ev message s")
      case (Break t)
      with True step show ?thesis by (simp add: refine.simps) linarith
    next
      case (Raise e t)
      with True step show ?thesis by (simp add: refine.simps) linarith
    next
      case (Continue t)
      from iteration_Continue_count [OF Continue]
      have "nat (max_refinements self - refinement_count t) + 1
              = nat (max_refinements self - refinement_count s)"
        using True by simp
      with "1.IH" [OF True Continue] Continue True step show ?thesis
        by (simp add: refine.simps)
    qed
  qed
qed



section \<open>The loop: what \<open>generate\<close> does\<close>

lemma generate_failed:
  assumes "gen message w = (Inl e, w1)"
  shows "generate H self gen ev message w
           = (Inl e, (initial_state w)\<lparr>generator_calls := 1, world := w1\<rparr>)"
  using assms by (simp add: generate_def initial_state_def)

lemma generate_started:
  assumes "gen message w = (Inr r, w1)"
  shows "generate H self gen ev message w
           = (case refine H self gen ev message
                     \<lparr>refinement_count = 0, response = r, best_response = r, best_rating = POOR,
                      refinement_history = [], generator_calls = 1, evaluator_calls = 0,
                      world = w1\<rparr> of
                (Some e, s') \<Rightarrow> (Inl e, s')
              | (None, s') \<Rightarrow> (Inr (best_response s'), s'))"
  using assms by (simp add: generate_def initial_state_def)

lemma generate_tracks: "best_tracked (snd (generate H self gen ev message w))"
proof (cases "gen message w")
  case (Pair out w1)
  show ?thesis
  proof (cases out)
    case (Inl e)
    with Pair show ?thesis
      by (simp add: generate_failed best_tracked_def initial_state_def)
  next
    case (Inr r)
    let ?s = "\<lparr>refinement_count = 0, response = r, best_response = r, best_rating = POOR,
               refinement_history = [], generator_calls = 1, evaluator_calls = 0,
               world = w1\<rparr> :: ('a, 'b) state"
    have "best_tracked ?s" by (simp add: best_tracked_def)
    from refine_tracks [OF this, of H self gen ev message]
    have tracked: "best_tracked (snd (refine H self gen ev message ?s))" .
    obtain out' s' where run: "refine H self gen ev message ?s = (out', s')"
      by (cases "refine H self gen ev message ?s")
    with tracked Inr Pair show ?thesis
      by (cases out') (simp_all add: generate_started)
  qed
qed

lemma generate_returns_best:
  "fst (generate H self gen ev message w) = Inr v \<Longrightarrow>
     v = best_response (snd (generate H self gen ev message w))"
  by (cases "gen message w")
     (auto simp: generate_def Let_def split: sum.splits prod.splits option.splits)

lemma generate_exit:
  assumes "generate H self gen ev message w = (res, s)"
  shows "(refinement_history s = [] \<and> generator_calls s = 1 \<and> evaluator_calls s = 0
            \<and> (\<exists>e. res = Inl e))
         \<or> (case res of
               Inl e \<Rightarrow> list_all (\<lambda>r. \<not> acceptable self (evaluation_result r)) (refinement_history s)
             | Inr v \<Rightarrow>
                 v = best_response s
                 \<and> evaluator_calls s = length (refinement_history s)
                 \<and> list_all (\<lambda>r. \<not> acceptable self (evaluation_result r))
                      (butlast (refinement_history s))
                 \<and> map attempt (refinement_history s)
                      = map int [1..<Suc (length (refinement_history s))]
                 \<and> (if refinement_history s \<noteq> []
                        \<and> acceptable self (evaluation_result (last (refinement_history s)))
                     then generator_calls s = length (refinement_history s)
                     else generator_calls s = length (refinement_history s) + 1
                          \<and> max_refinements self \<le> refinement_count s))"
proof (cases "gen message w")
  case (Pair out w1)
  show ?thesis
  proof (cases out)
    case (Inl e)
    with Pair assms show ?thesis
      by (auto simp: generate_failed initial_state_def)
  next
    case (Inr r)
    let ?s = "\<lparr>refinement_count = 0, response = r, best_response = r, best_rating = POOR,
               refinement_history = [], generator_calls = 1, evaluator_calls = 0,
               world = w1\<rparr> :: ('a, 'b) state"
    have head: "at_head self ?s" by (simp add: at_head_def)
    obtain out' s' where run: "refine H self gen ev message ?s = (out', s')"
      by (cases "refine H self gen ev message ?s")
    from refine_exit [OF head run] run Inr Pair assms show ?thesis
      by (cases out') (auto simp: generate_started)
  qed
qed

section \<open>Evaluating the stand-ins\<close>

lemmas run_simps = generate_def initial_state_def refine.simps iteration_def Let_def
  build_eval_prompt_def evaluator_instruction_def acceptable_def
  numbering_generator_def scripted_evaluator_def verdict_def script_def workflow_def

section \<open>Claims about the refinement loop\<close>

text \<open>
  C2, as the code has it. One call of \<open>generate\<close> calls the generator at most
  \<open>max(max_refinements, 0) + 1\<close> times and the evaluator at most \<open>max(max_refinements, 0)\<close>
  times, whatever the message, the collaborators and the configuration, and however the
  call ends.
\<close>

theorem calls_bounded:
  "generator_calls (snd (generate H self gen ev message w)) \<le> nat (max_refinements self) + 1
   \<and> evaluator_calls (snd (generate H self gen ev message w)) \<le> nat (max_refinements self)"
proof (cases "gen message w")
  case (Pair out w1)
  show ?thesis
  proof (cases out)
    case (Inl e)
    with Pair show ?thesis by (simp add: generate_failed initial_state_def)
  next
    case (Inr r)
    let ?s = "\<lparr>refinement_count = 0, response = r, best_response = r, best_rating = POOR,
               refinement_history = [], generator_calls = 1, evaluator_calls = 0,
               world = w1\<rparr> :: ('a, 'b) state"
    obtain out' s' where run: "refine H self gen ev message ?s = (out', s')"
      by (cases "refine H self gen ev message ?s")
    from refine_calls [of H self gen ev message ?s] run Inr Pair show ?thesis
      by (cases out') (simp_all add: generate_started)
  qed
qed

theorem calls_bounded_witness:
  "generator_calls (snd (generate stand_in_host (workflow GOOD 2) numbering_generator
      scripted_evaluator (PyStr ''Write a haiku.'') (script [FAIR, FAIR]))) \<le> 3
   \<and> evaluator_calls (snd (generate stand_in_host (workflow GOOD 2) numbering_generator
      scripted_evaluator (PyStr ''Write a haiku.'') (script [FAIR, FAIR]))) \<le> 2"
  using calls_bounded [of stand_in_host "workflow GOOD 2" numbering_generator
      scripted_evaluator "PyStr ''Write a haiku.''" "script [FAIR, FAIR]"]
  by (simp add: workflow_def)

text \<open>
  C2 as stated, with \<open>max_refinements + 1\<close> and \<open>max_refinements\<close> as the bounds, fails for a
  negative \<open>max_refinements\<close>: the first generation is made before the loop test, so with
  \<open>max_refinements = -1\<close> there is one generator call, more than \<open>-1 + 1\<close>.
\<close>

theorem calls_bound_counterexample:
  "\<not> (int (generator_calls (snd (generate stand_in_host (workflow GOOD (- 1))
          numbering_generator scripted_evaluator (PyStr ''Write a haiku.'') (script []))))
        \<le> max_refinements (workflow GOOD (- 1)) + 1
      \<and> int (evaluator_calls (snd (generate stand_in_host (workflow GOOD (- 1))
          numbering_generator scripted_evaluator (PyStr ''Write a haiku.'') (script []))))
        \<le> max_refinements (workflow GOOD (- 1)))"
  by (simp add: run_simps)

text \<open>
  C10. With \<open>max_refinements \<le> 0\<close> the loop body never runs: when the generator answers the
  message with \<open>r\<close>, \<open>generate\<close> returns \<open>r\<close> after exactly one generator call and no
  evaluator call, with no record in the history and the best rating still \<open>POOR\<close>.
\<close>

theorem no_refinement_budget:
  assumes "max_refinements self \<le> 0" and "gen message w = (Inr r, w1)"
  shows "generate H self gen ev message w
           = (Inr r, \<lparr>refinement_count = 0, response = r, best_response = r,
                      best_rating = POOR, refinement_history = [], generator_calls = 1,
                      evaluator_calls = 0, world = w1\<rparr>)"
  using assms by (simp add: generate_started refine.simps)

theorem no_refinement_budget_witness:
  "generate stand_in_host (workflow GOOD 0) numbering_generator scripted_evaluator
       (PyStr ''Write a haiku.'') (script [EXCELLENT])
     = (Inr (PyObj 1), \<lparr>refinement_count = 0, response = PyObj 1, best_response = PyObj 1,
                      best_rating = POOR, refinement_history = [], generator_calls = 1,
                      evaluator_calls = 0,
                      world = \<lparr>verdicts = [verdict EXCELLENT], drafts = 2\<rparr>\<rparr>)"
  using no_refinement_budget [of "workflow GOOD 0" numbering_generator
      "PyStr ''Write a haiku.''" "script [EXCELLENT]" "PyObj 1"
      "\<lparr>verdicts = [verdict EXCELLENT], drafts = 2\<rparr>" stand_in_host scripted_evaluator]
  by (simp add: workflow_def numbering_generator_def script_def)

text \<open>
  C4. With \<open>max_refinements \<ge> 1\<close>, when the first evaluation is acceptable (its rating
  reaches \<open>min_rating\<close>, or it says that no improvement is needed), \<open>generate\<close> returns the
  first response after exactly one generator call and exactly one evaluator call.
\<close>

theorem first_evaluation_accepted:
  assumes "1 \<le> max_refinements self"
    and "gen message w = (Inr r, w1)"
    and "build_eval_prompt self (py_str H message) (response_text H r) 0 = Inr p"
    and "ev p w1 = (Inr e, w2)"
    and "acceptable self e"
  shows "fst (generate H self gen ev message w) = Inr r
       \<and> generator_calls (snd (generate H self gen ev message w)) = 1
       \<and> evaluator_calls (snd (generate H self gen ev message w)) = 1
       \<and> map evaluation_result (refinement_history (snd (generate H self gen ev message w))) = [e]"
  using assms by (simp add: generate_started refine.simps iteration_def Let_def)

theorem first_evaluation_accepted_witness:
  "fst (generate stand_in_host (workflow GOOD 3) numbering_generator scripted_evaluator
          (PyStr ''Write a haiku.'') (script [GOOD, POOR])) = Inr (PyObj 1)
   \<and> generator_calls (snd (generate stand_in_host (workflow GOOD 3) numbering_generator
          scripted_evaluator (PyStr ''Write a haiku.'') (script [GOOD, POOR]))) = 1
   \<and> evaluator_calls (snd (generate stand_in_host (workflow GOOD 3) numbering_generator
          scripted_evaluator (PyStr ''Write a haiku.'') (script [GOOD, POOR]))) = 1
   \<and> map evaluation_result (refinement_history (snd (generate stand_in_host (workflow GOOD 3)
          numbering_generator scripted_evaluator (PyStr ''Write a haiku.'')
          (script [GOOD, POOR])))) = [verdict GOOD]"
proof -
  have budget: "1 \<le> max_refinements (workflow GOOD 3)"
    by (simp add: workflow_def)
  have first: "numbering_generator (PyStr ''Write a haiku.'') (script [GOOD, POOR])
                 = (Inr (PyObj 1), \<lparr>verdicts = [verdict GOOD, verdict POOR], drafts = 2\<rparr>)"
    by (simp add: numbering_generator_def script_def)
  obtain p where prompt: "build_eval_prompt (workflow GOOD 3)
        (py_str stand_in_host (PyStr ''Write a haiku.''))
        (response_text stand_in_host (PyObj 1)) 0 = Inr p"
    by (simp add: build_eval_prompt_def evaluator_instruction_def workflow_def)
  have judged: "scripted_evaluator p \<lparr>verdicts = [verdict GOOD, verdict POOR], drafts = 2\<rparr>
                  = (Inr (verdict GOOD), \<lparr>verdicts = [verdict POOR], drafts = 2\<rparr>)"
    by (simp add: scripted_evaluator_def)
  have ok: "acceptable (workflow GOOD 3) (verdict GOOD)"
    by (simp add: acceptable_def workflow_def verdict_def)
  show ?thesis
    by (rule first_evaluation_accepted [where self = "workflow GOOD 3"
          and gen = numbering_generator and ev = scripted_evaluator and H = stand_in_host
          and message = "PyStr ''Write a haiku.''" and w = "script [GOOD, POOR]"
          and r = "PyObj 1" and p = p and e = "verdict GOOD"
          and ?w1.0 = "\<lparr>verdicts = [verdict GOOD, verdict POOR], drafts = 2\<rparr>"
          and ?w2.0 = "\<lparr>verdicts = [verdict POOR], drafts = 2\<rparr>",
          OF budget first prompt judged ok])
qed

text \<open>
  C1. Whenever \<open>generate\<close> ends, by a return or by an exception, and an evaluation has been
  recorded, the best rating is the highest rating among the records and the best response
  is the response of the first record with that rating (a later record with an equal
  rating does not replace it); the value returned is this best response; and every pass
  through the loop body keeps the best response tracked in this way.
\<close>

theorem best_response_is_earliest_maximum:
  assumes "generate H self gen ev message w = (res, t)"
  shows "(refinement_history t \<noteq> [] \<longrightarrow>
            rating_value (best_rating t)
              = Max (set (map (rating_value \<circ> rating \<circ> evaluation_result) (refinement_history t)))
            \<and> map_option recorded_response
                (find (\<lambda>r. rating (evaluation_result r) = best_rating t) (refinement_history t))
              = Some (best_response t))
       \<and> (\<forall>v. res = Inr v \<longrightarrow> v = best_response t)
       \<and> (\<forall>s. best_tracked s \<longrightarrow> best_tracked (flow_state (iteration H self gen ev message s)))"
proof -
  from generate_tracks [of H self gen ev message w] assms have "best_tracked t" by simp
  then have recorded: "refinement_history t \<noteq> [] \<longrightarrow>
            rating_value (best_rating t)
              = Max (set (map (rating_value \<circ> rating \<circ> evaluation_result) (refinement_history t)))
            \<and> map_option recorded_response
                (find (\<lambda>r. rating (evaluation_result r) = best_rating t) (refinement_history t))
              = Some (best_response t)"
    by (simp add: best_tracked_def)
  from generate_returns_best [of H self gen ev message w] assms
  have returned: "\<forall>v. res = Inr v \<longrightarrow> v = best_response t" by simp
  have kept: "\<forall>s. best_tracked s \<longrightarrow> best_tracked (flow_state (iteration H self gen ev message s))"
    by (simp add: iteration_tracks)
  from recorded returned kept show ?thesis by blast
qed

theorem best_response_is_earliest_maximum_witness:
  "refinement_history (snd (generate stand_in_host (workflow GOOD 2) numbering_generator
       scripted_evaluator (PyStr ''Write a haiku.'') (script [FAIR, FAIR]))) \<noteq> []
   \<and> best_rating (snd (generate stand_in_host (workflow GOOD 2) numbering_generator
       scripted_evaluator (PyStr ''Write a haiku.'') (script [FAIR, FAIR]))) = FAIR
   \<and> fst (generate stand_in_host (workflow GOOD 2) numbering_generator
       scripted_evaluator (PyStr ''Write a haiku.'') (script [FAIR, FAIR])) = Inr (PyObj 1)
   \<and> best_response (snd (generate stand_in_host (workflow GOOD 2) numbering_generator
       scripted_evaluator (PyStr ''Write a haiku.'') (script [FAIR, FAIR]))) = PyObj 1
   \<and> best_tracked (initial_state (script [FAIR]) :: (nat, stand_in_world) state)
   \<and> best_tracked (flow_state (iteration stand_in_host (workflow GOOD 2) numbering_generator
       scripted_evaluator (PyStr ''Write a haiku.'')
       (initial_state (script [FAIR]) :: (nat, stand_in_world) state)))"
proof -
  let ?G = "generate stand_in_host (workflow GOOD 2) numbering_generator
       scripted_evaluator (PyStr ''Write a haiku.'') (script [FAIR, FAIR])"
  have run: "?G = (fst ?G, snd ?G)" by simp
  have start: "best_tracked (initial_state (script [FAIR]) :: (nat, stand_in_world) state)"
    by (simp add: best_tracked_def initial_state_def)
  have facts: "refinement_history (snd ?G) \<noteq> []" "best_rating (snd ?G) = FAIR"
    "fst ?G = Inr (PyObj 1)"
    by (simp_all add: run_simps)
  note tracked = best_response_is_earliest_maximum [OF run]
  from tracked have returned: "\<forall>v. fst ?G = Inr v \<longrightarrow> v = best_response (snd ?G)"
    by (rule conjunct1 [OF conjunct2])
  from tracked have kept: "\<forall>s. best_tracked s \<longrightarrow>
      best_tracked (flow_state (iteration stand_in_host (workflow GOOD 2) numbering_generator
        scripted_evaluator (PyStr ''Write a haiku.'') s))"
    by (rule conjunct2 [OF conjunct2])
  from returned [rule_format, OF facts(3)]
  have best: "best_response (snd ?G) = PyObj 1" by (rule sym)
  from kept [rule_format, OF start] facts(1) facts(2) facts(3) best start
  show ?thesis by (intro conjI)
qed

text \<open>
  C3, as the code has it. With \<open>min_rating = GOOD\<close> and \<open>max_refinements = 3\<close>, when the
  evaluator answers the three evaluation prompts with the ratings \<open>POOR\<close>, \<open>POOR\<close>,
  \<open>EXCELLENT\<close>, each asking for improvement, and the generator answers the message and the
  two refinement prompts, \<open>generate\<close> makes 3 generator calls (the first generation and two
  refinements) and 3 evaluator calls, and returns the response of the third attempt. The
  world is left as the third evaluation left it: nothing is called after it.
\<close>

theorem scenario_A:
  assumes "min_rating self = GOOD" and "max_refinements self = 3"
    and "gen message w = (Inr r1, w1)"
    and "build_eval_prompt self (py_str H message) (response_text H r1) 0 = Inr p1"
    and "ev p1 w1 = (Inr e1, w2)" and "rating e1 = POOR" and "needs_improvement e1"
    and "gen (PyStr (build_refinement_prompt H self (py_str H message) (response_text H r1)
                e1 0)) w2 = (Inr r2, w3)"
    and "build_eval_prompt self (py_str H message) (response_text H r2) 1 = Inr p2"
    and "ev p2 w3 = (Inr e2, w4)" and "rating e2 = POOR" and "needs_improvement e2"
    and "gen (PyStr (build_refinement_prompt H self (py_str H message) (response_text H r2)
                e2 1)) w4 = (Inr r3, w5)"
    and "build_eval_prompt self (py_str H message) (response_text H r3) 2 = Inr p3"
    and "ev p3 w5 = (Inr e3, w6)" and "rating e3 = EXCELLENT" and "needs_improvement e3"
  shows "fst (generate H self gen ev message w) = Inr r3
       \<and> generator_calls (snd (generate H self gen ev message w)) = 3
       \<and> evaluator_calls (snd (generate H self gen ev message w)) = 3
       \<and> refinement_history (snd (generate H self gen ev message w))
           = [\<lparr>attempt = 1, recorded_response = r1, evaluation_result = e1\<rparr>,
              \<lparr>attempt = 2, recorded_response = r2, evaluation_result = e2\<rparr>,
              \<lparr>attempt = 3, recorded_response = r3, evaluation_result = e3\<rparr>]
       \<and> world (snd (generate H self gen ev message w)) = w6"
  using assms by (simp add: generate_started refine.simps iteration_def Let_def acceptable_def)

theorem scenario_A_witness:
  "fst (generate stand_in_host (workflow GOOD 3) numbering_generator scripted_evaluator
          (PyStr ''Write a haiku.'') (script [POOR, POOR, EXCELLENT])) = Inr (PyObj 3)
   \<and> generator_calls (snd (generate stand_in_host (workflow GOOD 3) numbering_generator
          scripted_evaluator (PyStr ''Write a haiku.'') (script [POOR, POOR, EXCELLENT]))) = 3
   \<and> evaluator_calls (snd (generate stand_in_host (workflow GOOD 3) numbering_generator
          scripted_evaluator (PyStr ''Write a haiku.'') (script [POOR, POOR, EXCELLENT]))) = 3
   \<and> refinement_history (snd (generate stand_in_host (workflow GOOD 3) numbering_generator
          scripted_evaluator (PyStr ''Write a haiku.'') (script [POOR, POOR, EXCELLENT])))
       = [\<lparr>attempt = 1, recorded_response = PyObj 1, evaluation_result = verdict POOR\<rparr>,
          \<lparr>attempt = 2, recorded_response = PyObj 2, evaluation_result = verdict POOR\<rparr>,
          \<lparr>attempt = 3, recorded_response = PyObj 3, evaluation_result = verdict EXCELLENT\<rparr>]
   \<and> world (snd (generate stand_in_host (workflow GOOD 3) numbering_generator
          scripted_evaluator (PyStr ''Write a haiku.'') (script [POOR, POOR, EXCELLENT])))
       = \<lparr>verdicts = [], drafts = 4\<rparr>"
proof -
  let ?W = "workflow GOOD 3"
  let ?m = "PyStr ''Write a haiku.'' :: nat pyvalue"
  let ?v = "\<lambda>qs n. \<lparr>verdicts = map verdict qs, drafts = n\<rparr>"
  have m: "min_rating ?W = GOOD" and b: "max_refinements ?W = 3"
    by (simp_all add: workflow_def)
  have g1: "numbering_generator ?m (script [POOR, POOR, EXCELLENT])
              = (Inr (PyObj 1), ?v [POOR, POOR, EXCELLENT] 2)"
    by (simp add: numbering_generator_def script_def)
  obtain p1 where q1: "build_eval_prompt ?W (py_str stand_in_host ?m)
        (response_text stand_in_host (PyObj 1)) 0 = Inr p1"
    by (simp add: build_eval_prompt_def evaluator_instruction_def workflow_def)
  have j1: "scripted_evaluator p1 (?v [POOR, POOR, EXCELLENT] 2)
              = (Inr (verdict POOR), ?v [POOR, EXCELLENT] 2)"
    by (simp add: scripted_evaluator_def)
  have g2: "numbering_generator (PyStr (build_refinement_prompt stand_in_host ?W
              (py_str stand_in_host ?m) (response_text stand_in_host (PyObj 1))
              (verdict POOR) 0)) (?v [POOR, EXCELLENT] 2)
              = (Inr (PyObj 2), ?v [POOR, EXCELLENT] 3)"
    by (simp add: numbering_generator_def)
  obtain p2 where q2: "build_eval_prompt ?W (py_str stand_in_host ?m)
        (response_text stand_in_host (PyObj 2)) 1 = Inr p2"
    by (simp add: build_eval_prompt_def evaluator_instruction_def workflow_def)
  have j2: "scripted_evaluator p2 (?v [POOR, EXCELLENT] 3)
              = (Inr (verdict POOR), ?v [EXCELLENT] 3)"
    by (simp add: scripted_evaluator_def)
  have g3: "numbering_generator (PyStr (build_refinement_prompt stand_in_host ?W
              (py_str stand_in_host ?m) (response_text stand_in_host (PyObj 2))
              (verdict POOR) 1)) (?v [EXCELLENT] 3)
              = (Inr (PyObj 3), ?v [EXCELLENT] 4)"
    by (simp add: numbering_generator_def)
  obtain p3 where q3: "build_eval_prompt ?W (py_str stand_in_host ?m)
        (response_text stand_in_host (PyObj 3)) 2 = Inr p3"
    by (simp add: build_eval_prompt_def evaluator_instruction_def workflow_def)
  have j3: "scripted_evaluator p3 (?v [EXCELLENT] 4)
              = (Inr (verdict EXCELLENT), ?v [] 4)"
    by (simp add: scripted_evaluator_def)
  have poor: "rating (verdict POOR) = POOR" and top: "rating (verdict EXCELLENT) = EXCELLENT"
    and asked: "needs_improvement (verdict POOR)" "needs_improvement (verdict EXCELLENT)"
    by (simp_all add: verdict_def)
  have "fst (generate stand_in_host ?W numbering_generator scripted_evaluator ?m
               (script [POOR, POOR, EXCELLENT])) = Inr (PyObj 3)
       \<and> generator_calls (snd (generate stand_in_host ?W numbering_generator
            scripted_evaluator ?m (script [POOR, POOR, EXCELLENT]))) = 3
       \<and> evaluator_calls (snd (generate stand_in_host ?W numbering_generator
            scripted_evaluator ?m (script [POOR, POOR, EXCELLENT]))) = 3
       \<and> refinement_history (snd (generate stand_in_host ?W numbering_generator
            scripted_evaluator ?m (script [POOR, POOR, EXCELLENT])))
           = [\<lparr>attempt = 1, recorded_response = PyObj 1, evaluation_result = verdict POOR\<rparr>,
              \<lparr>attempt = 2, recorded_response = PyObj 2, evaluation_result = verdict POOR\<rparr>,
              \<lparr>attempt = 3, recorded_response = PyObj 3,
                evaluation_result = verdict EXCELLENT\<rparr>]
       \<and> world (snd (generate stand_in_host ?W numbering_generator
            scripted_evaluator ?m (script [POOR, POOR, EXCELLENT]))) = ?v [] 4"
    by (rule scenario_A [where self = "?W" and H = stand_in_host
          and gen = numbering_generator and ev = scripted_evaluator
          and message = "?m" and w = "script [POOR, POOR, EXCELLENT]"
          and ?r1.0 = "PyObj 1" and ?r2.0 = "PyObj 2" and ?r3.0 = "PyObj 3"
          and ?p1.0 = p1 and ?p2.0 = p2 and ?p3.0 = p3
          and ?e1.0 = "verdict POOR" and ?e2.0 = "verdict POOR" and ?e3.0 = "verdict EXCELLENT"
          and ?w1.0 = "?v [POOR, POOR, EXCELLENT] 2" and ?w2.0 = "?v [POOR, EXCELLENT] 2"
          and ?w3.0 = "?v [POOR, EXCELLENT] 3" and ?w4.0 = "?v [EXCELLENT] 3"
          and ?w5.0 = "?v [EXCELLENT] 4" and ?w6.0 = "?v [] 4",
          OF m b g1 q1 j1 poor asked(1) g2 q2 j2 poor asked(1) g3 q3 j3 top asked(2)])
  then show ?thesis by simp
qed

text \<open>
  C3 as stated counts 4 generator calls. The third evaluation ends the loop before a third
  refinement is asked for, so the run below, which meets the scenario, makes 3.
\<close>

theorem scenario_A_counterexample:
  "map (rating \<circ> evaluation_result) (refinement_history (snd (generate stand_in_host
       (workflow GOOD 3) numbering_generator scripted_evaluator (PyStr ''Write a haiku.'')
       (script [POOR, POOR, EXCELLENT])))) = [POOR, POOR, EXCELLENT]
   \<and> list_all (needs_improvement \<circ> evaluation_result) (refinement_history (snd (generate
       stand_in_host (workflow GOOD 3) numbering_generator scripted_evaluator
       (PyStr ''Write a haiku.'') (script [POOR, POOR, EXCELLENT]))))
   \<and> generator_calls (snd (generate stand_in_host (workflow GOOD 3) numbering_generator
       scripted_evaluator (PyStr ''Write a haiku.'') (script [POOR, POOR, EXCELLENT]))) \<noteq> 4"
  by (simp add: run_simps)

section \<open>Claims about the refinement prompt\<close>

lemma sublist_between: "ys = ps @ xs @ ss \<Longrightarrow> sublist xs ys"
  by (auto simp: sublist_def)

text \<open>
  C5. The refinement prompt holds the block with the previous response, word for word,
  when the history is not enabled; the prompt is the same whatever the previous response
  is exactly when the history is enabled, and then it holds the sentence that the previous
  response is in the conversation history; in both cases it holds the original request
  and the whole feedback block.
\<close>

theorem previous_response_embedded_iff:
  "(\<not> history self \<longrightarrow>
      sublist (previous_open @ current_response @ previous_close)
        (build_refinement_prompt H self request current_response fb n))
   \<and> ((\<forall>other. build_refinement_prompt H self request other fb n
                = build_refinement_prompt H self request current_response fb n)
        \<longleftrightarrow> history self)
   \<and> (history self \<longrightarrow>
        sublist history_notice (build_refinement_prompt H self request current_response fb n))
   \<and> sublist (request_open @ request @ request_close)
        (build_refinement_prompt H self request current_response fb n)
   \<and> sublist (feedback_open @ format_rating H (rating fb) @ details_open @ feedback fb
               @ details_close @ ''<focus-areas>'' @ focus_field fb @ ''</focus-areas>''
               @ feedback_close)
        (build_refinement_prompt H self request current_response fb n)"
proof (cases "history self")
  case True
  let ?head = "refine_intro @ str_int (n + 1) @ refine_goal @ data_open"
  let ?fb = "feedback_open @ format_rating H (rating fb) @ details_open @ feedback fb
               @ details_close @ ''<focus-areas>'' @ focus_field fb @ ''</focus-areas>''
               @ feedback_close"
  have shape: "\<And>c. build_refinement_prompt H self request c fb n
      = ?head @ (request_open @ request @ request_close) @ ?fb
          @ instruction_open @ history_notice @ instruction_retained"
    using True by (simp add: build_refinement_prompt_def Let_def)
  have 1: "sublist history_notice (build_refinement_prompt H self request current_response fb n)"
    by (rule sublist_between [where ps = "?head @ (request_open @ request @ request_close) @ ?fb @ instruction_open"
          and ss = instruction_retained]) (simp add: shape)
  have 2: "sublist (request_open @ request @ request_close)
        (build_refinement_prompt H self request current_response fb n)"
    by (rule sublist_between [where ps = ?head
          and ss = "?fb @ instruction_open @ history_notice @ instruction_retained"])
       (simp add: shape)
  have 3: "sublist ?fb (build_refinement_prompt H self request current_response fb n)"
    by (rule sublist_between [where ps = "?head @ (request_open @ request @ request_close)"
          and ss = "instruction_open @ history_notice @ instruction_retained"])
       (simp add: shape)
  have 4: "\<forall>other. build_refinement_prompt H self request other fb n
                = build_refinement_prompt H self request current_response fb n"
    by (simp only: shape) simp
  from True 1 2 3 4 show ?thesis by simp
next
  case False
  let ?head = "refine_intro @ str_int (n + 1) @ refine_goal @ data_open"
  let ?fb = "feedback_open @ format_rating H (rating fb) @ details_open @ feedback fb
               @ details_close @ ''<focus-areas>'' @ focus_field fb @ ''</focus-areas>''
               @ feedback_close"
  have shape: "\<And>c. build_refinement_prompt H self request c fb n
      = ?head @ (request_open @ request @ request_close)
          @ (previous_open @ c @ previous_close) @ ?fb
          @ instruction_open @ instruction_fresh"
    using False by (simp add: build_refinement_prompt_def Let_def)
  have 1: "sublist (previous_open @ current_response @ previous_close)
        (build_refinement_prompt H self request current_response fb n)"
    by (rule sublist_between [where ps = "?head @ (request_open @ request @ request_close)"
          and ss = "?fb @ instruction_open @ instruction_fresh"]) (simp add: shape)
  have 2: "sublist (request_open @ request @ request_close)
        (build_refinement_prompt H self request current_response fb n)"
    by (rule sublist_between [where ps = ?head
          and ss = "(previous_open @ current_response @ previous_close) @ ?fb
                      @ instruction_open @ instruction_fresh"])
       (simp add: shape)
  have 3: "sublist ?fb (build_refinement_prompt H self request current_response fb n)"
    by (rule sublist_between [where ps = "?head @ (request_open @ request @ request_close)
            @ (previous_open @ current_response @ previous_close)"
          and ss = "instruction_open @ instruction_fresh"])
       (simp add: shape)
  have "build_refinement_prompt H self request (current_response @ ''x'') fb n
          \<noteq> build_refinement_prompt H self request current_response fb n"
    by (simp only: shape) simp
  then have 4: "\<not> (\<forall>other. build_refinement_prompt H self request other fb n
                = build_refinement_prompt H self request current_response fb n)"
    by blast
  from False 1 2 3 4 show ?thesis by simp
qed

theorem previous_response_embedded_iff_witness:
  "sublist (previous_open @ ''An old pond'' @ previous_close)
     (build_refinement_prompt stand_in_host (workflow GOOD 3) ''Write a haiku.''
        ''An old pond'' (verdict POOR) 0)
   \<and> sublist history_notice
       (build_refinement_prompt stand_in_host ((workflow GOOD 3)\<lparr>history := True\<rparr>)
          ''Write a haiku.'' ''An old pond'' (verdict POOR) 0)"
proof -
  have fresh: "\<not> history (workflow GOOD 3)" by (simp add: workflow_def)
  have retained: "history ((workflow GOOD 3)\<lparr>history := True\<rparr>)" by simp
  note a = previous_response_embedded_iff [where self = "workflow GOOD 3"
      and H = stand_in_host and request = "''Write a haiku.''"
      and current_response = "''An old pond''" and fb = "verdict POOR" and n = 0]
  note b = previous_response_embedded_iff [where self = "(workflow GOOD 3)\<lparr>history := True\<rparr>"
      and H = stand_in_host and request = "''Write a haiku.''"
      and current_response = "''An old pond''" and fb = "verdict POOR" and n = 0]
  from a have "\<not> history (workflow GOOD 3) \<longrightarrow>
      sublist (previous_open @ ''An old pond'' @ previous_close)
        (build_refinement_prompt stand_in_host (workflow GOOD 3) ''Write a haiku.''
           ''An old pond'' (verdict POOR) 0)"
    by (rule conjunct1)
  with fresh have 1: "sublist (previous_open @ ''An old pond'' @ previous_close)
        (build_refinement_prompt stand_in_host (workflow GOOD 3) ''Write a haiku.''
           ''An old pond'' (verdict POOR) 0)"
    by (rule rev_mp)
  from b have "history ((workflow GOOD 3)\<lparr>history := True\<rparr>) \<longrightarrow>
      sublist history_notice
       (build_refinement_prompt stand_in_host ((workflow GOOD 3)\<lparr>history := True\<rparr>)
          ''Write a haiku.'' ''An old pond'' (verdict POOR) 0)"
    by (rule conjunct1 [OF conjunct2 [OF conjunct2]])
  with retained have 2: "sublist history_notice
       (build_refinement_prompt stand_in_host ((workflow GOOD 3)\<lparr>history := True\<rparr>)
          ''Write a haiku.'' ''An old pond'' (verdict POOR) 0)"
    by (rule rev_mp)
  from 1 2 show ?thesis by (rule conjI)
qed

text \<open>
  C9. In the refinement prompt, what stands between \<open><focus-areas>\<close> and \<open></focus-areas>\<close>
  is the text \<open>None specified\<close> when the evaluation has no focus area, and otherwise the
  focus areas in their order, joined by a comma and a space; the rest of the prompt does
  not depend on them.
\<close>

theorem focus_areas_field:
  "\<exists>before after. \<forall>areas.
      build_refinement_prompt H self request current_response (fb\<lparr>focus_areas := areas\<rparr>) n
        = before @ ''<focus-areas>''
            @ (if areas = [] then ''None specified'' else str_join '', '' areas)
            @ ''</focus-areas>'' @ after"
proof (intro exI allI)
  fix areas
  show "build_refinement_prompt H self request current_response (fb\<lparr>focus_areas := areas\<rparr>) n
        = (refine_intro @ str_int (n + 1) @ refine_goal @ data_open
             @ request_open @ request @ request_close
             @ (if \<not> history self then previous_open @ current_response @ previous_close else [])
             @ feedback_open @ format_rating H (rating fb) @ details_open @ feedback fb
             @ details_close)
          @ ''<focus-areas>''
          @ (if areas = [] then ''None specified'' else str_join '', '' areas)
          @ ''</focus-areas>''
          @ (feedback_close
             @ (if \<not> history self then instruction_open @ instruction_fresh
                else instruction_open @ history_notice @ instruction_retained))"
    by (simp add: build_refinement_prompt_def Let_def focus_field_def)
qed

theorem focus_areas_field_witness:
  "\<exists>before after. \<forall>areas.
      build_refinement_prompt stand_in_host (workflow GOOD 3) ''Write a haiku.''
          ''An old pond'' ((verdict POOR)\<lparr>focus_areas := areas\<rparr>) 0
        = before @ ''<focus-areas>''
            @ (if areas = [] then ''None specified'' else str_join '', '' areas)
            @ ''</focus-areas>'' @ after"
  by (rule focus_areas_field)

section \<open>The passthrough LLM: helper lemmas\<close>

lemma split_first_at:
  "c \<notin> set a \<Longrightarrow> split_first [c] (a @ c # b) = Some (a, b)"
  by (induction a) auto


lemma split_command:
  assumes "c \<notin> set marker" and "c \<notin> set tool"
  shows "split_max [c] 2 (marker @ c # tool @ c # fragment) = [marker, tool, fragment]"
  using assms by (simp add: numeral_2_eq_2 split_first_at)

lemma command_parts:
  assumes "CHR '' '' \<notin> set tool"
  shows "split_max '' '' 2 (''***CALL_TOOL '' @ tool @ '' '' @ fragment)
           = [''***CALL_TOOL'', tool, fragment]"
proof -
  have cmd: "''***CALL_TOOL '' @ tool @ '' '' @ fragment
               = ''***CALL_TOOL'' @ CHR '' '' # tool @ CHR '' '' # fragment"
    by simp
  have "CHR '' '' \<notin> set ''***CALL_TOOL''" by simp
  from split_command [OF this assms] show ?thesis by (simp only: cmd)
qed

lemma parse_command:
  assumes "CHR '' '' \<notin> set tool"
  shows "parse_tool_command S (''***CALL_TOOL '' @ tool @ '' '' @ fragment)
           = (case json_loads S fragment of
                Inl (JSONDecodeError m) \<Rightarrow>
                  Inl (ValueError (''Invalid JSON arguments: '' @ fragment))
              | Inl e \<Rightarrow> Inl e
              | Inr arguments \<Rightarrow> Inr (strip tool, Some arguments))"
  unfolding parse_tool_command_def command_parts [OF assms]
  by (simp add: Let_def split: sum.splits exn.splits)

lemma command_is_tool_call:
  "prefix ''***CALL_TOOL '' (''***CALL_TOOL '' @ rest)"
  by (rule prefixI) simp








lemma passthrough_generate_other:
  "(\<forall>parts. message \<noteq> PyList parts) \<Longrightarrow> passthrough_generate message = message"
  by (cases message) (simp_all add: passthrough_generate_def)

section \<open>Claims about the passthrough LLM\<close>

text \<open>
  C6, as amended. A tool command \<open>***CALL_TOOL tool fragment\<close> whose fragment \<open>json.loads\<close>
  rejects with a \<open>JSONDecodeError\<close>: \<open>_parse_tool_command\<close> raises the error whose message
  quotes the fragment as it was written, and \<open>_call_tool_and_return_result\<close> and
  \<open>generate_str\<close> return that message after \<open>Error calling tool: \<close>. The object is left as
  it was: no tool was called, and the world of the tools is the same.
\<close>

theorem malformed_json_is_reported:
  assumes "CHR '' '' \<notin> set tool" and "json_loads S fragment = Inl (JSONDecodeError m)"
  shows "parse_tool_command S (''***CALL_TOOL '' @ tool @ '' '' @ fragment)
           = Inl (ValueError (''Invalid JSON arguments: '' @ fragment))
       \<and> call_tool_and_return_result S (''***CALL_TOOL '' @ tool @ '' '' @ fragment) self
           = (''Error calling tool: Invalid JSON arguments: '' @ fragment, self)
       \<and> generate_str S (''***CALL_TOOL '' @ tool @ '' '' @ fragment) self
           = (''Error calling tool: Invalid JSON arguments: '' @ fragment, self)"
proof -
  have parsed: "parse_tool_command S (''***CALL_TOOL '' @ tool @ '' '' @ fragment)
           = Inl (ValueError (''Invalid JSON arguments: '' @ fragment))"
    unfolding parse_command [OF assms(1)] using assms(2) by simp
  have called: "call_tool_and_return_result S (''***CALL_TOOL '' @ tool @ '' '' @ fragment) self
           = (''Error calling tool: Invalid JSON arguments: '' @ fragment, self)"
    unfolding call_tool_and_return_result_def parsed by simp
  have "generate_str S (''***CALL_TOOL '' @ tool @ '' '' @ fragment) self
           = (''Error calling tool: Invalid JSON arguments: '' @ fragment, self)"
    unfolding generate_str_def using called command_is_tool_call [of "tool @ '' '' @ fragment"]
    by simp
  with parsed called show ?thesis by simp
qed

theorem malformed_json_is_reported_witness:
  "parse_tool_command plain_services (''***CALL_TOOL '' @ ''files-read'' @ '' '' @ ''{path: 3'')
           = Inl (ValueError (''Invalid JSON arguments: '' @ ''{path: 3''))
       \<and> call_tool_and_return_result plain_services
            (''***CALL_TOOL '' @ ''files-read'' @ '' '' @ ''{path: 3'') fresh_passthrough
           = (''Error calling tool: Invalid JSON arguments: '' @ ''{path: 3'', fresh_passthrough)
       \<and> generate_str plain_services
            (''***CALL_TOOL '' @ ''files-read'' @ '' '' @ ''{path: 3'') fresh_passthrough
           = (''Error calling tool: Invalid JSON arguments: '' @ ''{path: 3'', fresh_passthrough)"
proof -
  have name: "CHR '' '' \<notin> set ''files-read''" by simp
  have bad: "json_loads plain_services ''{path: 3'' = Inl (JSONDecodeError ''Expecting value'')"
    by (simp add: plain_services_def)
  show ?thesis by (rule malformed_json_is_reported [OF name bad])
qed

text \<open>
  C6 as stated covers every argument block that is not valid JSON. A block of 1500 opening
  brackets is not valid JSON, and \<open>json.loads\<close> gives up on it with a \<open>RecursionError\<close>, which
  \<open>_parse_tool_command\<close> does not catch: the text returned is the message of that error, and
  the block is not quoted in it.
\<close>

theorem malformed_json_counterexample:
  "json_loads plain_services (replicate 1500 (CHR ''[''))
     = Inl (RecursionError
         ''maximum recursion depth exceeded while decoding a JSON array from a unicode string'')
   \<and> generate_str plain_services
        (''***CALL_TOOL '' @ ''files-read'' @ '' '' @ replicate 1500 (CHR ''['')) fresh_passthrough
     = (''Error calling tool: maximum recursion depth exceeded while decoding a JSON array from a unicode string'',
        fresh_passthrough)
   \<and> \<not> sublist (replicate 1500 (CHR ''[''))
        (fst (generate_str plain_services
           (''***CALL_TOOL '' @ ''files-read'' @ '' '' @ replicate 1500 (CHR ''['')) fresh_passthrough))"
proof -
  let ?deep = "replicate 1500 (CHR ''['')"
  have name: "CHR '' '' \<notin> set ''files-read''" by simp
  have "length ?deep \<noteq> length ''{}''" by simp
  then have other: "?deep \<noteq> ''{}''" by (rule contrapos_nn) (rule arg_cong)
  have deep: "json_loads plain_services ?deep
     = Inl (RecursionError
         ''maximum recursion depth exceeded while decoding a JSON array from a unicode string'')"
    by (simp add: plain_services_def other)
  have parsed: "parse_tool_command plain_services (''***CALL_TOOL '' @ ''files-read'' @ '' '' @ ?deep)
     = Inl (RecursionError
         ''maximum recursion depth exceeded while decoding a JSON array from a unicode string'')"
    unfolding parse_command [OF name] deep by simp
  have out: "generate_str plain_services (''***CALL_TOOL '' @ ''files-read'' @ '' '' @ ?deep)
       fresh_passthrough
     = (''Error calling tool: maximum recursion depth exceeded while decoding a JSON array from a unicode string'',
        fresh_passthrough)"
    unfolding generate_str_def call_tool_and_return_result_def parsed
    using command_is_tool_call [of "''files-read'' @ '' '' @ ?deep"] by simp
  have "CHR ''['' \<in> set ?deep" by simp
  moreover have "CHR ''['' \<notin> set (fst (generate_str plain_services
      (''***CALL_TOOL '' @ ''files-read'' @ '' '' @ ?deep) fresh_passthrough))"
    unfolding out by simp
  ultimately have "\<not> sublist ?deep (fst (generate_str plain_services
      (''***CALL_TOOL '' @ ''files-read'' @ '' '' @ ?deep) fresh_passthrough))"
    using set_mono_sublist by blast
  with deep out show ?thesis by (intro conjI)
qed

text \<open>
  C7. \<open>generate\<close> is documented to return the input message as it is. Given the list
  \<open>["hello"]\<close> it returns the list \<open>[["hello"]]\<close>, whose only element is the input: the
  value returned is not the input list.
\<close>

theorem passthrough_generate_wraps_list:
  "passthrough_generate (PyList [PyStr ''hello'']) = PyList [PyList [PyStr ''hello'']]
   \<and> passthrough_generate (PyList [PyStr ''hello'']) \<noteq> PyList [PyStr ''hello'']"
  by (simp add: passthrough_generate_def)




end
